theory Spec2Isabelle
  imports Main
begin

section \<open>Data model of the interview page\<close>

text \<open>
  The records follow the interfaces of \<^verbatim>\<open>src/lib/api.ts\<close> and of the interview page.
  A field of type \<^verbatim>\<open>string | null\<close> or an optional field \<^verbatim>\<open>f?: string\<close> is a
  \<^typ>\<open>string option\<close>, with \<^term>\<open>None\<close> for both \<^verbatim>\<open>null\<close> and \<^verbatim>\<open>undefined\<close>.
  The field \<^verbatim>\<open>id\<close> is written \<open>id_session\<close> and \<open>id_message\<close>, and the fields
  \<^verbatim>\<open>feedback\<close> and \<^verbatim>\<open>id\<close> of an interview get a suffix, since a record field is
  a constant of the theory.
\<close>

record Interview =
  id_interview :: string
  user_id :: string
  title :: string
  duration_minutes :: int
  job_description :: "string option"
  cv_summary :: "string option"
  created_at_interview :: string

record InterviewSession =
  id_session :: string
  interview_id :: string
  ai_message :: string
  user_message :: string
  feedback :: "string option"
  created_at :: string
  session_run_id :: "string option"

datatype Role = Ai | User

record Message =
  id_message :: string
  role :: Role
  content :: string
  feedback_message :: "string option"
  timestamp :: string

text \<open>JavaScript truthiness of a \<^verbatim>\<open>string | null\<close>: neither null nor the empty string.\<close>

definition truthy :: "string option \<Rightarrow> bool" where
  "truthy v = (case v of None \<Rightarrow> False | Some s \<Rightarrow> s \<noteq> [])"

definition INTERVIEW_STARTED :: string where
  "INTERVIEW_STARTED = ''[INTERVIEW_STARTED]''"

definition SESSION_ENDED :: string where
  "SESSION_ENDED = ''[SESSION_ENDED]''"

section \<open>History reconstruction\<close>

text \<open>
  The two payloads pushed by the \<^verbatim>\<open>forEach\<close> callback of the page: the entry of role
  \<^verbatim>\<open>"ai"\<close> (id of the turn, its system message and feedback) and the entry of role
  \<^verbatim>\<open>"user"\<close> (id of the turn followed by \<^verbatim>\<open>-user\<close>, its candidate message).
\<close>

definition aiEntry :: "InterviewSession \<Rightarrow> Message" where
  "aiEntry session =
     \<lparr>id_message = id_session session, role = Ai, content = ai_message session,
      feedback_message = feedback session, timestamp = created_at session\<rparr>"

definition userEntry :: "InterviewSession \<Rightarrow> Message" where
  "userEntry session =
     \<lparr>id_message = id_session session @ ''-user'', role = User,
      content = user_message session, feedback_message = None,
      timestamp = created_at session\<rparr>"

text \<open>The body of the callback: what one stored turn pushes onto \<^verbatim>\<open>messages\<close>.\<close>

definition pushSession :: "Message list \<Rightarrow> InterviewSession \<Rightarrow> Message list" where
  "pushSession msgs session =
     (let isOpeningSession = (user_message session = INTERVIEW_STARTED) in
      if isOpeningSession then msgs @ [aiEntry session]
      else (msgs @ [userEntry session]) @ [aiEntry session])"

definition isOpeningQuestionInSessions ::
  "string option \<Rightarrow> InterviewSession list \<Rightarrow> bool" where
  "isOpeningQuestionInSessions openingQuestion sessions =
     list_ex (\<lambda>s. user_message s = INTERVIEW_STARTED \<and> Some (ai_message s) = openingQuestion)
       sessions"

text \<open>
  The entry pushed before the loop, when the opening question is known and no turn is
  loaded yet. \<open>nowIso\<close> is the value of \<^verbatim>\<open>new Date().toISOString()\<close>.
\<close>

definition openingEntry :: "string option \<Rightarrow> string \<Rightarrow> InterviewSession list \<Rightarrow> Message list" where
  "openingEntry openingQuestion nowIso sessions =
     (case openingQuestion of
        None \<Rightarrow> []
      | Some q \<Rightarrow>
          if q \<noteq> [] \<and> length sessions = 0
             \<and> \<not> isOpeningQuestionInSessions openingQuestion sessions
          then [\<lparr>id_message = ''opening'', role = Ai, content = q,
                 feedback_message = None, timestamp = nowIso\<rparr>]
          else [])"

text \<open>The list \<^verbatim>\<open>messages\<close> of the page: the visible transcript.\<close>

definition messages :: "string option \<Rightarrow> string \<Rightarrow> InterviewSession list \<Rightarrow> Message list" where
  "messages openingQuestion nowIso sessions =
     foldl pushSession (openingEntry openingQuestion nowIso sessions) sessions"

text \<open>
  The earlier variant of the page skips the turn of the opening question and pushes,
  for every other turn, the system message before the candidate message.
\<close>

definition pushSession_legacy :: "Message list \<Rightarrow> InterviewSession \<Rightarrow> Message list" where
  "pushSession_legacy msgs session =
     (if user_message session = INTERVIEW_STARTED then msgs
      else (msgs @ [aiEntry session]) @ [userEntry session])"

definition openingEntry_legacy :: "string option \<Rightarrow> string \<Rightarrow> InterviewSession list \<Rightarrow> Message list" where
  "openingEntry_legacy openingQuestion nowIso sessions =
     (case openingQuestion of
        None \<Rightarrow> []
      | Some q \<Rightarrow>
          if q \<noteq> [] \<and> length sessions = 0
          then [\<lparr>id_message = ''opening'', role = Ai, content = q,
                 feedback_message = None, timestamp = nowIso\<rparr>]
          else [])"

definition messages_legacy :: "string option \<Rightarrow> string \<Rightarrow> InterviewSession list \<Rightarrow> Message list" where
  "messages_legacy openingQuestion nowIso sessions =
     foldl pushSession_legacy (openingEntry_legacy openingQuestion nowIso sessions) sessions"

text \<open>What one turn contributes, independently of what was pushed before it.\<close>

definition contribution :: "InterviewSession \<Rightarrow> Message list" where
  "contribution session =
     (if user_message session = INTERVIEW_STARTED then [aiEntry session]
      else [userEntry session, aiEntry session])"

section \<open>State of the interview page and its requests\<close>

text \<open>
  The \<^verbatim>\<open>useState\<close> cells of the page, with the \<^verbatim>\<open>isPending\<close> flags of its two
  mutations. \<open>elapsedTime\<close> is \<^term>\<open>None\<close> when the page holds \<^verbatim>\<open>NaN\<close>.
\<close>

record PageState =
  userMessage :: string
  started :: bool
  openingQuestion :: "string option"
  sessionRunId :: "string option"
  elapsedTime :: "int option"
  durationMinutes :: int
  summary :: "string option"
  isCodeOpen :: bool
  startPending :: bool
  sendPending :: bool

definition initialPageState :: PageState where
  "initialPageState =
     \<lparr>userMessage = [], started = False, openingQuestion = None, sessionRunId = None,
      elapsedTime = Some 0, durationMinutes = 30, summary = None, isCodeOpen = False,
      startPending = False, sendPending = False\<rparr>"

text \<open>
  What a handler does besides updating the state: the requests of \<^verbatim>\<open>src/lib/api.ts\<close>
  it sends (with the run identifier of the request body, \<^verbatim>\<open>sessionRunId || null\<close>),
  the notifications, the navigation and the invalidation of the cached turn list.
\<close>

datatype Effect =
    StartInterviewRequest
  | SendMessageRequest string "string option"
  | EndInterviewRequest "string option"
  | Toast string
  | Navigate string
  | InvalidateSessions
  | ResetSessionsCache

record StartInterviewResponse =
  session_run_id_start :: string
  opening_question :: string

record EndInterviewResponse =
  status_end :: string
  summary_end :: "string option"

text \<open>\<^verbatim>\<open>sessionRunId || undefined\<close>, then \<^verbatim>\<open>sessionRunId || null\<close> in the request body.\<close>

definition orNull :: "string option \<Rightarrow> string option" where
  "orNull v = (if truthy v then v else None)"

subsection \<open>Entering an interview: the resume effect\<close>

definition startInterviewMutate :: "PageState \<Rightarrow> PageState \<times> Effect list" where
  "startInterviewMutate st = (st\<lparr>startPending := True\<rparr>, [StartInterviewRequest])"

definition resumeEffect ::
  "bool \<Rightarrow> InterviewSession option \<Rightarrow> PageState \<Rightarrow> PageState \<times> Effect list" where
  "resumeEffect isLoadingLatest latestSession st =
     (if isLoadingLatest then (st, [])
      else case latestSession of
        Some latest \<Rightarrow>
          if user_message latest = SESSION_ENDED then
            (if \<not> started st \<and> \<not> startPending st then startInterviewMutate st
             else (st, []))
          else if truthy (session_run_id latest) then
            (st\<lparr>sessionRunId := session_run_id latest, started := True\<rparr>, [])
          else (st, [])
      | None \<Rightarrow>
          if \<not> started st \<and> \<not> startPending st then startInterviewMutate st
          else (st, []))"

definition startInterview_onSuccess ::
  "StartInterviewResponse \<Rightarrow> PageState \<Rightarrow> PageState \<times> Effect list" where
  "startInterview_onSuccess data st =
     (st\<lparr>openingQuestion := Some (opening_question data),
         sessionRunId := Some (session_run_id_start data),
         started := True, startPending := False\<rparr>,
      [Toast ''Interview started!'', ResetSessionsCache])"

definition startInterview_onError :: "string \<Rightarrow> PageState \<Rightarrow> PageState \<times> Effect list" where
  "startInterview_onError err st =
     (st\<lparr>startPending := False\<rparr>, [Toast ''Failed to start interview''])"

text \<open>The resume effect run \<open>n\<close> times on the same fetched latest turn.\<close>

fun resumeEffect_repeat ::
  "nat \<Rightarrow> InterviewSession option \<Rightarrow> PageState \<Rightarrow> PageState \<times> Effect list" where
  "resumeEffect_repeat 0 latestSession st = (st, [])"
| "resumeEffect_repeat (Suc n) latestSession st =
     (let (st1, effs1) = resumeEffect False latestSession st;
          (st2, effs2) = resumeEffect_repeat n latestSession st1
      in (st2, effs1 @ effs2))"

text \<open>
  The earlier variant of the page has no resume effect. Its effect on mount sends a start
  request whenever the route names an interview, whatever turns are stored;
  \<open>interviewId\<close> is the route parameter. The state cells the two variants share are
  those of \<^typ>\<open>PageState\<close>.
\<close>

definition autoStartEffect_legacy :: "string option \<Rightarrow> PageState \<Rightarrow> PageState \<times> Effect list" where
  "autoStartEffect_legacy interviewId st =
     (if truthy interviewId \<and> \<not> started st \<and> \<not> startPending st
      then startInterviewMutate
             (st\<lparr>sessionRunId := None, openingQuestion := None, started := False\<rparr>)
      else (st, []))"

subsection \<open>Duration of the interview and the timer\<close>

definition durationEffect :: "Interview option \<Rightarrow> PageState \<Rightarrow> PageState" where
  "durationEffect interview st =
     (case interview of
        Some iv \<Rightarrow> st\<lparr>durationMinutes := duration_minutes iv\<rparr>
      | None \<Rightarrow> st)"

definition handleEndCall_request :: "PageState \<Rightarrow> Effect" where
  "handleEndCall_request st = EndInterviewRequest (orNull (orNull (sessionRunId st)))"

definition handleEndCall_settled ::
  "string + EndInterviewResponse \<Rightarrow> PageState \<Rightarrow> PageState \<times> Effect list" where
  "handleEndCall_settled result st =
     (case result of
        Inr response \<Rightarrow>
          if truthy (summary_end response)
          then (st\<lparr>summary := summary_end response\<rparr>,
                [Toast ''Interview ended. Summary generated.''])
          else (st, [Toast ''Interview ended'', Navigate ''/dashboard''])
      | Inl err \<Rightarrow> (st, [Navigate ''/dashboard'']))"

definition findStartSession :: "InterviewSession list \<Rightarrow> InterviewSession option" where
  "findStartSession sessions = find (\<lambda>s. user_message s = INTERVIEW_STARTED) sessions"

text \<open>
  Times are milliseconds since the epoch. \<open>getTime\<close> stands for
  \<^verbatim>\<open>new Date(s).getTime()\<close>, with \<^term>\<open>None\<close> for \<^verbatim>\<open>NaN\<close>; \<open>effectNow\<close> is the
  value of \<^verbatim>\<open>Date.now()\<close> when the effect runs, \<open>now\<close> its value at a tick.
\<close>

definition timerStartTime ::
  "(string \<Rightarrow> int option) \<Rightarrow> int \<Rightarrow> InterviewSession list \<Rightarrow> PageState \<Rightarrow> int option" where
  "timerStartTime getTime effectNow sessions st =
     (case findStartSession sessions of
        Some startSession \<Rightarrow> getTime (created_at startSession)
      | None \<Rightarrow>
          (case elapsedTime st of
             Some e \<Rightarrow> if e > 0 then Some (effectNow - e * 1000) else Some effectNow
           | None \<Rightarrow> Some effectNow))"

definition secondsElapsedAt :: "int option \<Rightarrow> int \<Rightarrow> int option" where
  "secondsElapsedAt startTime now =
     (case startTime of None \<Rightarrow> None | Some t \<Rightarrow> Some ((now - t) div 1000))"

text \<open>
  What the timer effect fixes when it runs and its ticks then use: the start time, and
  the duration and run identifier of the render in which the effect ran. The effect sets
  up no timer unless the page is started on a run.
\<close>

record TimerClosure =
  startTime :: "int option"
  durationMinutes_closure :: int
  sessionRunId_closure :: "string option"

definition timerEffect ::
  "(string \<Rightarrow> int option) \<Rightarrow> int \<Rightarrow> InterviewSession list \<Rightarrow> PageState
     \<Rightarrow> TimerClosure option" where
  "timerEffect getTime effectNow sessions st =
     (if \<not> started st \<or> \<not> truthy (sessionRunId st) then None
      else Some \<lparr>startTime = timerStartTime getTime effectNow sessions st,
                  durationMinutes_closure = durationMinutes st,
                  sessionRunId_closure = sessionRunId st\<rparr>)"

definition updateTimer :: "TimerClosure \<Rightarrow> int \<Rightarrow> PageState \<Rightarrow> PageState \<times> Effect list" where
  "updateTimer closure now st =
     (let secondsElapsed = secondsElapsedAt (startTime closure) now;
          st' = st\<lparr>elapsedTime := secondsElapsed\<rparr>
      in if (case secondsElapsed of None \<Rightarrow> False
             | Some s \<Rightarrow> s \<ge> durationMinutes_closure closure * 60)
         then (st', [EndInterviewRequest (orNull (orNull (sessionRunId_closure closure)))])
         else (st', []))"

text \<open>
  The ticks of one run of the effect, at the times \<open>nows\<close>: the update the effect makes
  at once, then those of its interval. Each works on the state the previous one left.
\<close>

fun timerTicks ::
  "TimerClosure option \<Rightarrow> int list \<Rightarrow> PageState \<Rightarrow> PageState \<times> Effect list" where
  "timerTicks None nows st = (st, [])"
| "timerTicks (Some closure) [] st = (st, [])"
| "timerTicks (Some closure) (now # nows) st =
     (let (st1, effs1) = updateTimer closure now st;
          (st2, effs2) = timerTicks (Some closure) nows st1
      in (st2, effs1 @ effs2))"

subsection \<open>Submitting an answer\<close>

text \<open>
  A text is the sequence of the bytes of its UTF-8 encoding. \<^verbatim>\<open>String.prototype.trim\<close>
  removes white space and line terminators from both ends: the code points U+0009 to
  U+000D, U+0020, U+00A0, U+1680, U+2000 to U+200A, U+2028, U+2029, U+202F, U+205F,
  U+3000 and U+FEFF, listed here by their encodings. An encoding begins with its lead
  byte, so one that ends the text is its last character.
\<close>

definition whiteSpaceEncodings :: "string list" where
  "whiteSpaceEncodings =
     [[CHR 0x09], [CHR 0x0A], [CHR 0x0B], [CHR 0x0C], [CHR 0x0D], [CHR 0x20],
      [CHR 0xC2, CHR 0xA0],
      [CHR 0xE1, CHR 0x9A, CHR 0x80],
      [CHR 0xE2, CHR 0x80, CHR 0x80], [CHR 0xE2, CHR 0x80, CHR 0x81],
      [CHR 0xE2, CHR 0x80, CHR 0x82], [CHR 0xE2, CHR 0x80, CHR 0x83],
      [CHR 0xE2, CHR 0x80, CHR 0x84], [CHR 0xE2, CHR 0x80, CHR 0x85],
      [CHR 0xE2, CHR 0x80, CHR 0x86], [CHR 0xE2, CHR 0x80, CHR 0x87],
      [CHR 0xE2, CHR 0x80, CHR 0x88], [CHR 0xE2, CHR 0x80, CHR 0x89],
      [CHR 0xE2, CHR 0x80, CHR 0x8A],
      [CHR 0xE2, CHR 0x80, CHR 0xA8], [CHR 0xE2, CHR 0x80, CHR 0xA9],
      [CHR 0xE2, CHR 0x80, CHR 0xAF],
      [CHR 0xE2, CHR 0x81, CHR 0x9F],
      [CHR 0xE3, CHR 0x80, CHR 0x80],
      [CHR 0xEF, CHR 0xBB, CHR 0xBF]]"

definition leadingEncoding :: "string list \<Rightarrow> string \<Rightarrow> string option" where
  "leadingEncoding encodings s = find (\<lambda>p. p \<noteq> [] \<and> take (length p) s = p) encodings"

function stripLeading :: "string list \<Rightarrow> string \<Rightarrow> string" where
  "stripLeading encodings s =
     (case leadingEncoding encodings s of
        None \<Rightarrow> s
      | Some p \<Rightarrow> stripLeading encodings (drop (length p) s))"
  by pat_completeness auto
termination
proof (relation "measure (\<lambda>(encodings, s). length s)")
  show "wf (measure (\<lambda>(encodings, s). length s))" by simp
next
  fix encodings :: "string list" and s p :: string
  assume "leadingEncoding encodings s = Some p"
  then have "p \<noteq> []" and "take (length p) s = p"
    by (auto simp add: leadingEncoding_def find_Some_iff)
  then have "0 < length p" and "length p \<le> length s"
  proof -
    show "0 < length p" using \<open>p \<noteq> []\<close> by simp
    have "length (take (length p) s) = length p"
      using \<open>take (length p) s = p\<close> by simp
    then show "length p \<le> length s" by simp
  qed
  then have "length s - length p < length s" by arith
  then show "((encodings, drop (length p) s), (encodings, s))
      \<in> measure (\<lambda>(encodings, s). length s)"
    by simp
qed

declare stripLeading.simps [simp del]

definition trim :: "string \<Rightarrow> string" where
  "trim s =
     rev (stripLeading (map rev whiteSpaceEncodings) (rev (stripLeading whiteSpaceEncodings s)))"

definition sendMessageMutate :: "string \<Rightarrow> PageState \<Rightarrow> PageState \<times> Effect list" where
  "sendMessageMutate message st =
     (st\<lparr>sendPending := True\<rparr>, [SendMessageRequest message (orNull (orNull (sessionRunId st)))])"

definition handleSendMessage :: "PageState \<Rightarrow> PageState \<times> Effect list" where
  "handleSendMessage st =
     (if trim (userMessage st) = [] \<or> sendPending st then (st, [])
      else sendMessageMutate (trim (userMessage st)) st)"

definition formattedMessage :: "string \<Rightarrow> string \<Rightarrow> string" where
  "formattedMessage code language =
     ''I have written the following '' @ language @ '' code:'' @ [CHR 0x0A, CHR 0x0A]
       @ ''```'' @ language @ [CHR 0x0A] @ code @ [CHR 0x0A] @ ''```''"

definition handleCodeSubmit :: "string \<Rightarrow> string \<Rightarrow> PageState \<Rightarrow> PageState \<times> Effect list" where
  "handleCodeSubmit code language st =
     (let (st1, effs) = sendMessageMutate (formattedMessage code language) st
      in (st1\<lparr>isCodeOpen := False\<rparr>, effs @ [Toast ''Code submitted successfully!'']))"

definition sendMessage_onSuccess :: "PageState \<Rightarrow> PageState \<times> Effect list" where
  "sendMessage_onSuccess st =
     (st\<lparr>userMessage := [], sendPending := False\<rparr>, [InvalidateSessions])"

definition sendMessage_onError :: "string \<Rightarrow> PageState \<Rightarrow> PageState \<times> Effect list" where
  "sendMessage_onError err st =
     (st\<lparr>sendPending := False\<rparr>, [Toast ''Failed to send message''])"

text \<open>The number of \<^verbatim>\<open>sendMessage\<close> requests among the effects of a handler.\<close>

definition sendRequests :: "Effect list \<Rightarrow> Effect list" where
  "sendRequests effs =
     filter (\<lambda>e. case e of SendMessageRequest m r \<Rightarrow> True | _ \<Rightarrow> False) effs"

subsection \<open>The code editor\<close>

text \<open>
  The state of the \<^verbatim>\<open>CodeEditor\<close> component. The page renders the component only while
  \<open>isCodeOpen\<close> holds, so its state exists from the render that mounts it to the render
  that unmounts it, and a later mount starts from the initial state again.
\<close>

record CodeEditorState =
  code_state :: string
  language_state :: string

definition initialCodeEditorState :: "string \<Rightarrow> CodeEditorState" where
  "initialCodeEditorState initialCode =
     \<lparr>code_state = (if initialCode \<noteq> [] then initialCode
                     else ''# Write your code here'' @ [CHR 0x0A]),
      language_state = ''python''\<rparr>"

definition renderCodeEditor :: "PageState \<Rightarrow> CodeEditorState option \<Rightarrow> CodeEditorState option" where
  "renderCodeEditor st editor =
     (if isCodeOpen st
      then (case editor of None \<Rightarrow> Some (initialCodeEditorState []) | Some e \<Rightarrow> Some e)
      else None)"

definition onToggleCode :: "PageState \<Rightarrow> PageState" where
  "onToggleCode st = st\<lparr>isCodeOpen := \<not> isCodeOpen st\<rparr>"

definition editorOnChange :: "string option \<Rightarrow> CodeEditorState \<Rightarrow> CodeEditorState" where
  "editorOnChange v e = e\<lparr>code_state := (case v of None \<Rightarrow> [] | Some t \<Rightarrow> t)\<rparr>"

definition editorHandleSubmit :: "CodeEditorState \<Rightarrow> PageState \<Rightarrow> PageState \<times> Effect list" where
  "editorHandleSubmit e st = handleCodeSubmit (code_state e) (language_state e) st"

section \<open>The turn store behind the requests\<close>

text \<open>
  The backend that answers the requests of \<^verbatim>\<open>src/lib/api.ts\<close> is not among the
  sources. The definitions of this section follow sections 4.1 to 4.3 of the
  specification, with the two sentinel texts of the page for \<^verbatim>\<open>RUN_STARTED\<close> and
  \<^verbatim>\<open>RUN_ENDED\<close>. A store holds the turns of one interview, oldest first; \<open>stamp\<close>
  is the identifier and the creation time the store gives a new turn.
\<close>

datatype StoreError = RunTerminatedError | OutOfTurnError | GenerationFailedError | NotFoundError

type_synonym TurnStore = "InterviewSession list"

text \<open>Modelled from the spec: \<^verbatim>\<open>listByRun\<close> of the Turn Store, all turns of one run,
  oldest first (the backend is missing).\<close>

definition listByRun :: "TurnStore \<Rightarrow> string \<Rightarrow> InterviewSession list" where
  "listByRun store runId = filter (\<lambda>t. session_run_id t = Some runId) store"

text \<open>Modelled from the spec: \<^verbatim>\<open>latestForInterview\<close> of the Turn Store, the most recently
  appended turn across any run (the backend is missing).\<close>

definition latestForInterview :: "TurnStore \<Rightarrow> InterviewSession option" where
  "latestForInterview store = (case rev store of [] \<Rightarrow> None | t # older \<Rightarrow> Some t)"

text \<open>Modelled from the spec: the terminal turn of a run, the one whose candidate message
  is the run-ended sentinel, if the run has one (the backend is missing).\<close>

definition terminalTurn :: "TurnStore \<Rightarrow> string \<Rightarrow> InterviewSession option" where
  "terminalTurn store runId =
     find (\<lambda>t. user_message t = SESSION_ENDED) (listByRun store runId)"

text \<open>Modelled from the spec: \<^verbatim>\<open>append\<close> of the Turn Store, which fails with
  \<^verbatim>\<open>RunTerminatedError\<close> if the target run already has a terminal turn (the backend is
  missing).\<close>

definition append_turn ::
  "TurnStore \<Rightarrow> string \<Rightarrow> string \<Rightarrow> string \<Rightarrow> string \<Rightarrow> string option \<Rightarrow> string \<times> string
     \<Rightarrow> StoreError + TurnStore" where
  "append_turn store interviewId runId systemMessage candidateMessage fb stamp =
     (case terminalTurn store runId of
        Some t \<Rightarrow> Inl RunTerminatedError
      | None \<Rightarrow>
          Inr (store @
            [\<lparr>id_session = fst stamp, interview_id = interviewId, ai_message = systemMessage,
              user_message = candidateMessage, feedback = fb, created_at = snd stamp,
              session_run_id = Some runId\<rparr>]))"

text \<open>Modelled from the spec: step 4 of the Session Run Resolver, what the start request
  does (the backend is missing). \<open>generated\<close> is the opening question of the
  question-generation service, \<^term>\<open>None\<close> when it fails; then nothing is persisted.\<close>

definition startRun ::
  "TurnStore \<Rightarrow> string \<Rightarrow> string \<Rightarrow> string option \<Rightarrow> string \<times> string
     \<Rightarrow> StoreError + TurnStore \<times> StartInterviewResponse" where
  "startRun store interviewId newRunId generated stamp =
     (case generated of
        None \<Rightarrow> Inl GenerationFailedError
      | Some question \<Rightarrow>
          (case append_turn store interviewId newRunId question INTERVIEW_STARTED None stamp of
             Inl e \<Rightarrow> Inl e
           | Inr store' \<Rightarrow>
               Inr (store', \<lparr>session_run_id_start = newRunId, opening_question = question\<rparr>)))"

text \<open>Modelled from the spec: \<^verbatim>\<open>endRun\<close> of the Turn-Taking State Machine, what the end
  request does (the backend is missing). It appends a terminal turn with the optional
  summary as feedback; on a run that is already ended it is a no-op that returns the
  existing summary. An unknown run is a \<^verbatim>\<open>NotFoundError\<close>. The specification gives the
  terminal turn no system message; it is empty here.\<close>

definition endRun ::
  "TurnStore \<Rightarrow> string \<Rightarrow> string \<Rightarrow> string option \<Rightarrow> string \<times> string
     \<Rightarrow> StoreError + TurnStore \<times> string option" where
  "endRun store interviewId runId generatedSummary stamp =
     (if listByRun store runId = [] then Inl NotFoundError
      else case terminalTurn store runId of
        Some t \<Rightarrow> Inr (store, feedback t)
      | None \<Rightarrow>
          (case append_turn store interviewId runId [] SESSION_ENDED generatedSummary stamp of
             Inl e \<Rightarrow> Inl e
           | Inr store' \<Rightarrow> Inr (store', generatedSummary)))"

subsection \<open>The page against the turn store\<close>

text \<open>
  Entering an interview on a freshly loaded page: the resume effect of the page runs on
  the latest turn of the store, and a start request, if the effect sends one, is answered
  by \<^const>\<open>startRun\<close>.
\<close>

definition enterInterview ::
  "TurnStore \<Rightarrow> string \<Rightarrow> string \<Rightarrow> string option \<Rightarrow> string \<times> string
     \<Rightarrow> TurnStore \<times> PageState" where
  "enterInterview store interviewId newRunId generated stamp =
     (let (st1, effs) = resumeEffect False (latestForInterview store) initialPageState in
      if StartInterviewRequest \<in> set effs then
        (case startRun store interviewId newRunId generated stamp of
           Inr (store', data) \<Rightarrow> (store', fst (startInterview_onSuccess data st1))
         | Inl e \<Rightarrow> (store, fst (startInterview_onError ''Failed to start interview'' st1)))
      else (store, st1))"

text \<open>The same on the earlier variant of the page, whose effect on mount starts a run.\<close>

definition enterInterview_legacy ::
  "TurnStore \<Rightarrow> string \<Rightarrow> string \<Rightarrow> string option \<Rightarrow> string \<times> string
     \<Rightarrow> TurnStore \<times> PageState" where
  "enterInterview_legacy store interviewId newRunId generated stamp =
     (let (st1, effs) = autoStartEffect_legacy (Some interviewId) initialPageState in
      if StartInterviewRequest \<in> set effs then
        (case startRun store interviewId newRunId generated stamp of
           Inr (store', data) \<Rightarrow> (store', fst (startInterview_onSuccess data st1))
         | Inl e \<Rightarrow> (store, fst (startInterview_onError ''Failed to start interview'' st1)))
      else (store, st1))"

text \<open>The turns the history query of the page loads: those of its run, once started.\<close>

definition loadedSessions :: "TurnStore \<Rightarrow> PageState \<Rightarrow> InterviewSession list" where
  "loadedSessions store st =
     (if started st \<and> truthy (sessionRunId st)
      then (case sessionRunId st of Some runId \<Rightarrow> listByRun store runId | None \<Rightarrow> [])
      else [])"

definition visibleTranscript :: "TurnStore \<times> PageState \<Rightarrow> (Role \<times> string) list" where
  "visibleTranscript sp =
     map (\<lambda>m. (role m, content m))
       (messages (openingQuestion (snd sp)) [] (loadedSessions (fst sp) (snd sp)))"

section \<open>Sample data\<close>

text \<open>A run of one interview: the opening turn, one answered turn and the closing turn.\<close>

definition sampleStart :: InterviewSession where
  "sampleStart =
     \<lparr>id_session = ''s1'', interview_id = ''iv1'', ai_message = ''Tell me about yourself.'',
      user_message = ''[INTERVIEW_STARTED]'', feedback = None,
      created_at = ''2024-05-01T10:00:00Z'', session_run_id = Some ''run-1''\<rparr>"

definition sampleAnswer :: InterviewSession where
  "sampleAnswer =
     \<lparr>id_session = ''s2'', interview_id = ''iv1'', ai_message = ''How did you evict entries?'',
      user_message = ''I built a cache'', feedback = Some ''Good start'',
      created_at = ''2024-05-01T10:05:00Z'', session_run_id = Some ''run-1''\<rparr>"

definition sampleEnd :: InterviewSession where
  "sampleEnd =
     \<lparr>id_session = ''s3'', interview_id = ''iv1'', ai_message = ''Interview ended'',
      user_message = ''[SESSION_ENDED]'', feedback = Some ''Summary of the run'',
      created_at = ''2024-05-01T10:15:00Z'', session_run_id = Some ''run-1''\<rparr>"

text \<open>A turn stored without a run identifier, as the optional field allows.\<close>

definition sampleNoRun :: InterviewSession where
  "sampleNoRun =
     \<lparr>id_session = ''s0'', interview_id = ''iv1'', ai_message = ''What is a heap?'',
      user_message = ''A tree'', feedback = None,
      created_at = ''2024-04-01T09:00:00Z'', session_run_id = None\<rparr>"

definition sampleInterview :: Interview where
  "sampleInterview =
     \<lparr>id_interview = ''iv1'', user_id = ''u1'', title = ''Backend engineer'',
      duration_minutes = 15, job_description = None, cv_summary = None,
      created_at_interview = ''2024-04-30T08:00:00Z''\<rparr>"

definition sampleLongInterview :: Interview where
  "sampleLongInterview = sampleInterview\<lparr>duration_minutes := 60\<rparr>"

text \<open>The page after it resumed the sample run.\<close>

definition sampleResumed :: PageState where
  "sampleResumed = initialPageState\<lparr>sessionRunId := Some ''run-1'', started := True\<rparr>"

text \<open>A clock for the sample timestamps: \<^verbatim>\<open>10:00:00\<close> is \<open>0\<close>.\<close>

definition sampleGetTime :: "string \<Rightarrow> int option" where
  "sampleGetTime s =
     (if s = ''2024-05-01T10:00:00Z'' then Some 0
      else if s = ''2024-05-01T10:05:00Z'' then Some 300000
      else if s = ''2024-05-01T10:15:00Z'' then Some 900000
      else None)"

text \<open>The page with a draft typed into the answer field.\<close>

definition sampleDraft :: PageState where
  "sampleDraft = sampleResumed\<lparr>userMessage := '' I built a cache ''\<rparr>"

definition sampleStore :: TurnStore where
  "sampleStore = [sampleStart, sampleAnswer]"

text \<open>The page with the code editor open and a line of code typed into it.\<close>

definition sampleEditing :: "PageState \<times> CodeEditorState option" where
  "sampleEditing =
     (onToggleCode sampleResumed,
      map_option (editorOnChange (Some ''print(1)''))
        (renderCodeEditor (onToggleCode sampleResumed) None))"

section \<open>Properties of the history reconstruction\<close>

lemma pushSession_contribution: "pushSession msgs s = msgs @ contribution s"
  by (simp add: pushSession_def contribution_def)

lemma foldl_pushSession:
  "foldl pushSession msgs sessions = msgs @ concat (map contribution sessions)"
  by (induction sessions arbitrary: msgs) (simp_all add: pushSession_contribution)

lemma openingEntry_nonempty: "sessions \<noteq> [] \<Longrightarrow> openingEntry oq nowIso sessions = []"
  by (simp add: openingEntry_def split: option.splits)

lemma messages_nonempty:
  "sessions \<noteq> [] \<Longrightarrow> messages oq nowIso sessions = concat (map contribution sessions)"
  by (simp add: messages_def foldl_pushSession openingEntry_nonempty)

lemma concat_contribution_answers:
  "\<forall>s \<in> set rest. user_message s \<noteq> INTERVIEW_STARTED \<Longrightarrow>
   concat (map contribution rest) = concat (map (\<lambda>s. [userEntry s, aiEntry s]) rest)"
  by (induction rest) (simp_all add: contribution_def)

lemma sentinels_differ: "SESSION_ENDED \<noteq> INTERVIEW_STARTED"
  by (simp add: SESSION_ENDED_def INTERVIEW_STARTED_def)

lemma foldl_pushSession_legacy:
  "\<forall>s \<in> set rest. user_message s \<noteq> INTERVIEW_STARTED \<Longrightarrow>
   foldl pushSession_legacy msgs rest =
     msgs @ concat (map (\<lambda>s. [aiEntry s, userEntry s]) rest)"
  by (induction rest arbitrary: msgs) (simp_all add: pushSession_legacy_def)

lemma openingEntry_legacy_nonempty:
  "sessions \<noteq> [] \<Longrightarrow> openingEntry_legacy oq nowIso sessions = []"
  by (simp add: openingEntry_legacy_def split: option.splits)

text \<open>
  Claim C1, as stated, fails on the earlier variant of the page: for the sample run it
  shows nothing of the opening turn, and for the answered turn the system message before
  the candidate message.
\<close>

theorem history_legacy_order_counterexample:
  "user_message sampleStart = INTERVIEW_STARTED
   \<and> map (\<lambda>m. (role m, content m)) (messages_legacy None [] [sampleStart, sampleAnswer]) =
       [(Ai, ''How did you evict entries?''), (User, ''I built a cache'')]"
  by (simp add: messages_legacy_def openingEntry_legacy_def pushSession_legacy_def
      aiEntry_def userEntry_def sampleStart_def sampleAnswer_def INTERVIEW_STARTED_def)

text \<open>
  Claim C1, amended. On a stored turn sequence that begins with the opening turn
  (candidate message \<^verbatim>\<open>[INTERVIEW_STARTED]\<close>), the visible transcript of the page is
  the system message of that turn alone, followed for every later turn by its candidate
  message and then its system message, in that order. The earlier variant of the page
  shows nothing for the opening turn and, for every later turn, its system message
  followed by its candidate message.
\<close>

theorem history_candidate_then_system:
  assumes "user_message first = INTERVIEW_STARTED"
    and "\<forall>s \<in> set rest. user_message s \<noteq> INTERVIEW_STARTED"
  shows "messages oq nowIso (first # rest) =
           aiEntry first # concat (map (\<lambda>s. [userEntry s, aiEntry s]) rest)
       \<and> messages_legacy oq nowIso (first # rest) =
           concat (map (\<lambda>s. [aiEntry s, userEntry s]) rest)"
proof -
  have "messages oq nowIso (first # rest) = concat (map contribution (first # rest))"
    by (rule messages_nonempty) simp
  also have "\<dots> = aiEntry first # concat (map contribution rest)"
    using assms(1) by (simp add: contribution_def)
  finally have current: "messages oq nowIso (first # rest) =
      aiEntry first # concat (map (\<lambda>s. [userEntry s, aiEntry s]) rest)"
    using concat_contribution_answers [OF assms(2)] by simp
  have "messages_legacy oq nowIso (first # rest) = foldl pushSession_legacy [] rest"
    using assms(1)
    by (simp add: messages_legacy_def openingEntry_legacy_nonempty pushSession_legacy_def)
  then have legacy: "messages_legacy oq nowIso (first # rest) =
      concat (map (\<lambda>s. [aiEntry s, userEntry s]) rest)"
    by (simp add: foldl_pushSession_legacy [OF assms(2)])
  show ?thesis using current legacy by simp
qed

theorem history_candidate_then_system_witness:
  "user_message sampleStart = INTERVIEW_STARTED
   \<and> user_message sampleAnswer \<noteq> INTERVIEW_STARTED
   \<and> map (\<lambda>m. (role m, content m)) (messages None [] [sampleStart, sampleAnswer]) =
       [(Ai, ''Tell me about yourself.''), (User, ''I built a cache''),
        (Ai, ''How did you evict entries?'')]"
proof -
  have h1: "user_message sampleStart = INTERVIEW_STARTED"
    by (simp add: sampleStart_def INTERVIEW_STARTED_def)
  have h2: "\<forall>s \<in> set [sampleAnswer]. user_message s \<noteq> INTERVIEW_STARTED"
    by (simp add: sampleAnswer_def INTERVIEW_STARTED_def)
  show ?thesis
    using h1 h2 history_candidate_then_system [OF h1 h2, of None "[]"]
    by (simp add: aiEntry_def userEntry_def sampleStart_def sampleAnswer_def)
qed

text \<open>
  Claim C5, as stated, fails: the closing turn of the sample run (candidate message
  \<^verbatim>\<open>[SESSION_ENDED]\<close>) puts two entries into the visible transcript, the sentinel text
  as a candidate message and then its system message.
\<close>

theorem terminal_turn_visible_counterexample:
  "user_message sampleEnd = SESSION_ENDED
   \<and> map (\<lambda>m. (role m, content m)) (messages None [] [sampleStart, sampleAnswer, sampleEnd]) =
       [(Ai, ''Tell me about yourself.''), (User, ''I built a cache''),
        (Ai, ''How did you evict entries?''), (User, ''[SESSION_ENDED]''),
        (Ai, ''Interview ended'')]"
  by (simp add: messages_def openingEntry_def pushSession_def aiEntry_def userEntry_def
      sampleStart_def sampleAnswer_def sampleEnd_def INTERVIEW_STARTED_def SESSION_ENDED_def)

text \<open>
  Claim C5, amended. The reconstruction has no case for the closing turn: a turn whose
  candidate message is \<^verbatim>\<open>[SESSION_ENDED]\<close>, stored after the turns of a run, adds its
  candidate message and then its system message to the transcript of those turns, as
  any answered turn does.
\<close>

theorem terminal_turn_contributes_pair:
  assumes "user_message t = SESSION_ENDED" and "turns \<noteq> []"
  shows "messages oq nowIso (turns @ [t]) = messages oq nowIso turns @ [userEntry t, aiEntry t]"
proof -
  have "contribution t = [userEntry t, aiEntry t]"
    using assms(1) sentinels_differ by (simp add: contribution_def)
  then show ?thesis
    using assms(2) by (simp add: messages_nonempty)
qed

theorem terminal_turn_contributes_pair_witness:
  "user_message sampleEnd = SESSION_ENDED \<and> [sampleStart] \<noteq> []
   \<and> messages None [] ([sampleStart] @ [sampleEnd]) =
       messages None [] [sampleStart] @ [userEntry sampleEnd, aiEntry sampleEnd]"
proof -
  have h1: "user_message sampleEnd = SESSION_ENDED"
    by (simp add: sampleEnd_def SESSION_ENDED_def)
  have h2: "[sampleStart] \<noteq> []" by simp
  show ?thesis
    using h1 terminal_turn_contributes_pair [OF h1 h2, of None "[]"] by simp
qed

section \<open>Properties of the resume effect\<close>

text \<open>
  Claim C4, as stated, fails: the latest turn of the sample is not a closing turn, yet
  the page does not resume a run (and does not start one), because the turn carries no
  run identifier.
\<close>

theorem resolver_resumes_otherwise_counterexample:
  "user_message sampleNoRun \<noteq> SESSION_ENDED
   \<and> resumeEffect False (Some sampleNoRun) initialPageState = (initialPageState, [])
   \<and> \<not> started initialPageState \<and> sessionRunId initialPageState = None"
  by (simp add: resumeEffect_def sampleNoRun_def SESSION_ENDED_def truthy_def
      initialPageState_def)

text \<open>
  Claim C4, amended. On entering an interview (nothing started, no start request pending,
  latest turn fetched) the page sends a start request exactly when there is no latest turn
  or its candidate message is \<^verbatim>\<open>[SESSION_ENDED]\<close>; it resumes the run of the latest turn
  exactly when that turn is not a closing turn and carries a non-empty run identifier;
  in the remaining case it does nothing.
\<close>

theorem resolver_decision:
  assumes "\<not> started st" and "\<not> startPending st"
  shows "(StartInterviewRequest \<in> set (snd (resumeEffect False latest st))
            \<longleftrightarrow> (case latest of None \<Rightarrow> True | Some t \<Rightarrow> user_message t = SESSION_ENDED))
       \<and> (started (fst (resumeEffect False latest st))
            \<longleftrightarrow> (case latest of None \<Rightarrow> False
                 | Some t \<Rightarrow> user_message t \<noteq> SESSION_ENDED \<and> truthy (session_run_id t)))
       \<and> (started (fst (resumeEffect False latest st))
            \<longrightarrow> sessionRunId (fst (resumeEffect False latest st))
                  = (case latest of None \<Rightarrow> None | Some t \<Rightarrow> session_run_id t))
       \<and> ((case latest of None \<Rightarrow> False
            | Some t \<Rightarrow> user_message t \<noteq> SESSION_ENDED \<and> \<not> truthy (session_run_id t))
            \<longrightarrow> resumeEffect False latest st = (st, []))"
  using assms
  by (cases latest) (simp_all add: resumeEffect_def startInterviewMutate_def)

theorem resolver_decision_witness:
  "\<not> started initialPageState \<and> \<not> startPending initialPageState
   \<and> snd (resumeEffect False None initialPageState) = [StartInterviewRequest]
   \<and> snd (resumeEffect False (Some sampleEnd) initialPageState) = [StartInterviewRequest]
   \<and> resumeEffect False (Some sampleAnswer) initialPageState = (sampleResumed, [])"
proof -
  have h1: "\<not> started initialPageState" and h2: "\<not> startPending initialPageState"
    by (simp_all add: initialPageState_def)
  have "started (fst (resumeEffect False (Some sampleAnswer) initialPageState))"
    using resolver_decision [OF h1 h2, of "Some sampleAnswer"]
    by (simp add: sampleAnswer_def SESSION_ENDED_def truthy_def)
  then show ?thesis
    using h1 h2
    by (simp add: resumeEffect_def startInterviewMutate_def sampleEnd_def sampleAnswer_def
        sampleResumed_def SESSION_ENDED_def truthy_def)
qed

lemma resumeEffect_no_run_id:
  "user_message t \<noteq> SESSION_ENDED \<Longrightarrow> \<not> truthy (session_run_id t) \<Longrightarrow>
   resumeEffect False (Some t) st = (st, [])"
  by (simp add: resumeEffect_def)

text \<open>
  Claim C10. When the latest turn exists, is not a closing turn and carries no run
  identifier, the resume effect changes nothing and sends nothing, however often it runs:
  no start request is sent and the page never becomes started.
\<close>

theorem no_run_id_never_started:
  assumes "user_message t \<noteq> SESSION_ENDED" and "\<not> truthy (session_run_id t)"
    and "\<not> started st"
  shows "resumeEffect_repeat n (Some t) st = (st, [])
       \<and> \<not> started (fst (resumeEffect_repeat n (Some t) st))
       \<and> StartInterviewRequest \<notin> set (snd (resumeEffect_repeat n (Some t) st))"
proof -
  have "resumeEffect_repeat n (Some t) st = (st, [])"
    by (induction n) (simp_all add: resumeEffect_no_run_id [OF assms(1,2)])
  then show ?thesis using assms(3) by simp
qed

theorem no_run_id_never_started_witness:
  "user_message sampleNoRun \<noteq> SESSION_ENDED \<and> \<not> truthy (session_run_id sampleNoRun)
   \<and> \<not> started initialPageState
   \<and> resumeEffect_repeat 3 (Some sampleNoRun) initialPageState = (initialPageState, [])"
proof -
  have h1: "user_message sampleNoRun \<noteq> SESSION_ENDED"
    by (simp add: sampleNoRun_def SESSION_ENDED_def)
  have h2: "\<not> truthy (session_run_id sampleNoRun)"
    by (simp add: sampleNoRun_def truthy_def)
  have h3: "\<not> started initialPageState"
    by (simp add: initialPageState_def)
  show ?thesis
    using h1 h2 h3 no_run_id_never_started [OF h1 h2 h3, of 3] by simp
qed

section \<open>Properties of the timer\<close>

lemma le_div_iff_int:
  fixes a k c :: int
  assumes "0 < c"
  shows "(k \<le> a div c) = (k * c \<le> a)"
proof -
  have "(a + (- k) * c) div c = - k + a div c"
    using assms by (intro div_mult_self1) simp
  then have "(0 \<le> a div c - k) = (0 \<le> a - k * c)"
    using pos_imp_zdiv_nonneg_iff [OF assms, of "a + (- k) * c"] by simp
  then show ?thesis by simp
qed

lemma deadline_arith: "((now - T) div 1000 \<ge> D * 60) = (T + D * 60 * 1000 \<le> (now::int))"
proof -
  have "(D * 60 \<le> (now - T) div 1000) = (D * 60 * 1000 \<le> now - T)"
    by (rule le_div_iff_int) simp
  then show ?thesis by linarith
qed

lemma orNull_idem: "orNull (orNull v) = orNull v"
  by (simp add: orNull_def)

lemma orNull_truthy: "truthy v \<Longrightarrow> orNull v = v"
  by (simp add: orNull_def)

lemma find_first_match:
  "\<forall>x \<in> set earlier. \<not> P x \<Longrightarrow> P y \<Longrightarrow> find P (earlier @ y # later) = Some y"
  by (induction earlier) simp_all

lemma findStartSession_first:
  assumes "\<forall>s \<in> set earlier. user_message s \<noteq> INTERVIEW_STARTED"
    and "user_message startSession = INTERVIEW_STARTED"
  shows "findStartSession (earlier @ startSession # later) = Some startSession"
  using assms by (simp add: findStartSession_def find_first_match)

lemma timerEffect_from_start:
  assumes "started st" and "truthy (sessionRunId st)"
    and "findStartSession sessions = Some startSession"
    and "getTime (created_at startSession) = Some T"
  shows "timerEffect getTime effectNow sessions st =
           Some \<lparr>startTime = Some T, durationMinutes_closure = durationMinutes st,
                 sessionRunId_closure = sessionRunId st\<rparr>"
  using assms by (simp add: timerEffect_def timerStartTime_def)

lemma updateTimer_from_start:
  "truthy runId \<Longrightarrow>
   updateTimer \<lparr>startTime = Some T, durationMinutes_closure = D, sessionRunId_closure = runId\<rparr>
       now st =
     (st\<lparr>elapsedTime := Some ((now - T) div 1000)\<rparr>,
      if T + D * 60 * 1000 \<le> now then [EndInterviewRequest runId] else [])"
  using deadline_arith [where now = now and T = T and D = D]
  by (simp add: updateTimer_def secondsElapsedAt_def orNull_idem orNull_truthy Let_def)

lemma timerTicks_from_start:
  assumes "truthy runId"
  shows "snd (timerTicks (Some \<lparr>startTime = Some T, durationMinutes_closure = D,
                                sessionRunId_closure = runId\<rparr>) nows st) =
           concat (map (\<lambda>now. if T + D * 60 * 1000 \<le> now then [EndInterviewRequest runId] else [])
             nows)"
proof (induction nows arbitrary: st)
  case Nil
  show ?case by simp
next
  case (Cons now nows)
  show ?case
    using Cons.IH [of "st\<lparr>elapsedTime := Some ((now - T) div 1000)\<rparr>"]
    by (simp add: updateTimer_from_start [OF assms] split_beta)
qed

lemma timerTicks_last_elapsed:
  assumes "truthy runId"
  shows "elapsedTime (fst (timerTicks (Some \<lparr>startTime = Some T, durationMinutes_closure = D,
                                sessionRunId_closure = runId\<rparr>) (nows @ [now]) st)) =
           Some ((now - T) div 1000)"
proof (induction nows arbitrary: st)
  case Nil
  show ?case by (simp add: updateTimer_from_start [OF assms])
next
  case (Cons n nows)
  show ?case
    using Cons.IH [of "st\<lparr>elapsedTime := Some ((n - T) div 1000)\<rparr>"]
    by (simp add: updateTimer_from_start [OF assms] split_beta)
qed

text \<open>
  Claim C2, as stated, fails in two states of the page. Before the interview is loaded
  the page counts against its initial thirty minutes: for the sixty-minute interview of
  the sample, whose run started at \<open>0\<close>, the tick at thirty-one minutes sends the end
  request. And while no opening turn is loaded the page counts from its own clock: an
  effect that ran ten minutes after the start of the run shows, at fifteen minutes, five
  minutes elapsed, and the fifteen-minute interview is not ended.
\<close>

theorem duration_guard_unloaded_counterexample:
  "duration_minutes sampleLongInterview = 60
   \<and> findStartSession [sampleStart, sampleAnswer] = Some sampleStart
   \<and> sampleGetTime (created_at sampleStart) = Some 0
   \<and> snd (timerTicks
        (timerEffect sampleGetTime 1860000 [sampleStart, sampleAnswer]
           (durationEffect None sampleResumed))
        [1860000] (durationEffect None sampleResumed))
       = [EndInterviewRequest (Some ''run-1'')]
   \<and> timerTicks
        (timerEffect sampleGetTime 600000 [] (durationEffect (Some sampleInterview) sampleResumed))
        [900000] (durationEffect (Some sampleInterview) sampleResumed)
       = (durationEffect (Some sampleInterview) sampleResumed\<lparr>elapsedTime := Some 300\<rparr>, [])"
  by (simp add: timerEffect_def timerStartTime_def updateTimer_def secondsElapsedAt_def
      durationEffect_def findStartSession_def sampleStart_def sampleInterview_def
      sampleLongInterview_def sampleResumed_def initialPageState_def sampleGetTime_def
      INTERVIEW_STARTED_def orNull_def truthy_def Let_def)

text \<open>
  Claim C2, amended. With the page started on a run, the duration taken from the loaded
  interview, and an opening turn among the loaded turns (the first turn whose candidate
  message is \<^verbatim>\<open>[INTERVIEW_STARTED]\<close>, with creation time \<open>T\<close>), the ticks of the timer
  send the end request at every tick at or after \<open>T\<close> plus the configured minutes and at
  no tick before, and the elapsed time a tick shows is the whole seconds since \<open>T\<close>,
  whatever the clock read when the effect ran.
\<close>

theorem duration_guard_deadline:
  assumes "started st" and "truthy (sessionRunId st)"
    and "sessions = earlier @ startSession # later"
    and "\<forall>s \<in> set earlier. user_message s \<noteq> INTERVIEW_STARTED"
    and "user_message startSession = INTERVIEW_STARTED"
    and "getTime (created_at startSession) = Some T"
  shows "snd (timerTicks (timerEffect getTime effectNow sessions (durationEffect (Some iv) st))
                nows st2) =
           concat (map (\<lambda>now. if T + duration_minutes iv * 60 * 1000 \<le> now
                               then [EndInterviewRequest (sessionRunId st)] else []) nows)
       \<and> elapsedTime (fst (timerTicks
             (timerEffect getTime effectNow sessions (durationEffect (Some iv) st))
             (nows @ [now]) st2)) = Some ((now - T) div 1000)"
proof -
  let ?st = "durationEffect (Some iv) st"
  have s: "started ?st" "truthy (sessionRunId ?st)"
    using assms(1,2) by (simp_all add: durationEffect_def)
  have f: "findStartSession sessions = Some startSession"
    unfolding assms(3) by (rule findStartSession_first [OF assms(4,5)])
  have "timerEffect getTime effectNow sessions ?st =
          Some \<lparr>startTime = Some T, durationMinutes_closure = duration_minutes iv,
                sessionRunId_closure = sessionRunId st\<rparr>"
    using timerEffect_from_start [where getTime = getTime, OF s f assms(6)]
    by (simp add: durationEffect_def)
  then show ?thesis
    using timerTicks_from_start [OF assms(2)] timerTicks_last_elapsed [OF assms(2)] by simp
qed

theorem duration_guard_deadline_witness:
  "started sampleResumed \<and> truthy (sessionRunId sampleResumed)
   \<and> [sampleStart, sampleAnswer] = [] @ sampleStart # [sampleAnswer]
   \<and> user_message sampleStart = INTERVIEW_STARTED
   \<and> sampleGetTime (created_at sampleStart) = Some 0
   \<and> snd (timerTicks
        (timerEffect sampleGetTime 420000 [sampleStart, sampleAnswer]
           (durationEffect (Some sampleInterview) sampleResumed))
        [420000, 899999, 900000, 901000] sampleResumed)
       = [EndInterviewRequest (Some ''run-1''), EndInterviewRequest (Some ''run-1'')]"
proof -
  have h1: "started sampleResumed" and h2: "truthy (sessionRunId sampleResumed)"
    by (simp_all add: sampleResumed_def initialPageState_def truthy_def)
  have h3: "[sampleStart, sampleAnswer] = [] @ sampleStart # [sampleAnswer]" by simp
  have h4: "\<forall>s \<in> set []. user_message s \<noteq> INTERVIEW_STARTED" by simp
  have h5: "user_message sampleStart = INTERVIEW_STARTED"
    by (simp add: sampleStart_def INTERVIEW_STARTED_def)
  have h6: "sampleGetTime (created_at sampleStart) = Some 0"
    by (simp add: sampleGetTime_def sampleStart_def)
  have d: "duration_minutes sampleInterview = 15"
    and r: "sessionRunId sampleResumed = Some ''run-1''"
    by (simp_all add: sampleInterview_def sampleResumed_def initialPageState_def)
  show ?thesis
    using h1 h2 h5 h6
      duration_guard_deadline [where getTime = sampleGetTime, OF h1 h2 h3 h4 h5 h6,
        of 420000 sampleInterview "[420000, 899999, 900000, 901000]" sampleResumed]
    by (simp add: d r)
qed


section \<open>Properties of submitting an answer\<close>

lemma trim_sample: "trim '' I built a cache '' = ''I built a cache''"
  by (simp add: trim_def stripLeading.simps leadingEncoding_def whiteSpaceEncodings_def)

lemma orNull_run1: "orNull (Some ''run-1'') = Some ''run-1''"
  by (simp add: orNull_def truthy_def)

lemma sampleDraft_fields:
  "userMessage sampleDraft = '' I built a cache ''" "\<not> sendPending sampleDraft"
  "sessionRunId sampleDraft = Some ''run-1''"
  by (simp_all add: sampleDraft_def sampleResumed_def initialPageState_def)

lemma sampleDraft_sent:
  "handleSendMessage sampleDraft
     = (sampleDraft\<lparr>sendPending := True\<rparr>, [SendMessageRequest ''I built a cache'' (Some ''run-1'')])"
  by (simp add: handleSendMessage_def sendMessageMutate_def sampleDraft_fields trim_sample
      orNull_run1)

text \<open>
  Submitting from the answer field. Submitting a non-blank draft while nothing is pending
  sends one request with the trimmed text. When that request fails, the page is back in the state it had before
  the submission: the draft is kept, nothing is pending, the turn list is not
  invalidated, so the same or an edited answer can be sent again. When it succeeds, the
  draft is cleared and the turn list is fetched again.
\<close>

theorem failed_submit_keeps_draft:
  assumes "\<not> sendPending st" and "trim (userMessage st) \<noteq> []"
  shows "snd (handleSendMessage st)
           = [SendMessageRequest (trim (userMessage st)) (orNull (sessionRunId st))]
       \<and> sendPending (fst (handleSendMessage st))
       \<and> fst (sendMessage_onError err (fst (handleSendMessage st))) = st
       \<and> InvalidateSessions \<notin> set (snd (sendMessage_onError err (fst (handleSendMessage st))))
       \<and> userMessage (fst (sendMessage_onSuccess (fst (handleSendMessage st)))) = []
       \<and> snd (sendMessage_onSuccess (fst (handleSendMessage st))) = [InvalidateSessions]"
  using assms
  by (cases st)
     (simp add: handleSendMessage_def sendMessageMutate_def sendMessage_onError_def
      sendMessage_onSuccess_def orNull_idem)

theorem failed_submit_keeps_draft_witness:
  "\<not> sendPending sampleDraft \<and> trim (userMessage sampleDraft) \<noteq> []
   \<and> snd (handleSendMessage sampleDraft) = [SendMessageRequest ''I built a cache'' (Some ''run-1'')]
   \<and> userMessage (fst (sendMessage_onError ''503'' (fst (handleSendMessage sampleDraft))))
       = '' I built a cache ''"
proof -
  have h1: "\<not> sendPending sampleDraft"
    by (simp add: sampleDraft_def sampleResumed_def initialPageState_def)
  have u: "userMessage sampleDraft = '' I built a cache ''"
    by (simp add: sampleDraft_def)
  have h2: "trim (userMessage sampleDraft) \<noteq> []"
    by (simp add: u trim_sample)
  have r: "orNull (sessionRunId sampleDraft) = Some ''run-1''"
    by (simp add: sampleDraft_def sampleResumed_def initialPageState_def orNull_def truthy_def)
  show ?thesis
    using h1 h2 failed_submit_keeps_draft [OF h1 h2, of "''503''"]
    by (simp add: u trim_sample r)
qed

text \<open>
  A submission from the code editor leaves the draft of the answer field as it is,
  whether its request fails or is still pending.
\<close>

lemma code_submit_keeps_draft:
  "userMessage (fst (handleCodeSubmit code language st)) = userMessage st
   \<and> userMessage (fst (sendMessage_onError err (fst (handleCodeSubmit code language st))))
       = userMessage st"
  by (simp add: handleCodeSubmit_def sendMessageMutate_def sendMessage_onError_def)

text \<open>
  Claim C7 at a concrete state: the candidate opens the code editor on the sample page,
  writes a line of code and submits it. The page sends the request, announces success
  and closes the editor before the request settles, which unmounts the component that
  holds the code. When the request then fails and the candidate opens the editor again,
  it holds its initial text, not the code that was submitted.
\<close>

theorem code_submit_failure_loses_code:
  "snd sampleEditing = Some \<lparr>code_state = ''print(1)'', language_state = ''python''\<rparr>
   \<and> snd (editorHandleSubmit \<lparr>code_state = ''print(1)'', language_state = ''python''\<rparr>
        (fst sampleEditing))
       = [SendMessageRequest (formattedMessage ''print(1)'' ''python'') (Some ''run-1''),
          Toast ''Code submitted successfully!'']
   \<and> renderCodeEditor
        (fst (editorHandleSubmit \<lparr>code_state = ''print(1)'', language_state = ''python''\<rparr>
           (fst sampleEditing)))
        (snd sampleEditing) = None
   \<and> renderCodeEditor
        (onToggleCode (fst (sendMessage_onError ''503''
           (fst (editorHandleSubmit \<lparr>code_state = ''print(1)'', language_state = ''python''\<rparr>
              (fst sampleEditing))))))
        None
       = Some \<lparr>code_state = ''# Write your code here'' @ [CHR 0x0A], language_state = ''python''\<rparr>"
  by (simp add: sampleEditing_def onToggleCode_def renderCodeEditor_def editorOnChange_def
      initialCodeEditorState_def editorHandleSubmit_def handleCodeSubmit_def
      sendMessageMutate_def sendMessage_onError_def sampleResumed_def initialPageState_def
      orNull_def truthy_def)

text \<open>
  The success of a submission from the code editor clears the draft of the answer field,
  also one kept from a request that failed.
\<close>

lemma code_success_clears_failed_draft:
  "userMessage (fst (sendMessage_onSuccess
      (fst (handleCodeSubmit ''print(1)'' ''python''
         (fst (sendMessage_onError ''503'' (fst (handleSendMessage sampleDraft))))))))
     = []"
  by (simp add: sendMessage_onSuccess_def)


text \<open>
  Claim C8 at a concrete state: after the draft of the sample page is submitted, its
  request is pending and a second submission of the form sends nothing, but submitting
  from the code editor sends a second request while the first is still pending.
\<close>

theorem code_submit_while_pending:
  "sendPending (fst (handleSendMessage sampleDraft))
   \<and> snd (handleSendMessage (fst (handleSendMessage sampleDraft))) = []
   \<and> sendRequests (snd (handleCodeSubmit ''print(1)'' ''python'' (fst (handleSendMessage sampleDraft))))
       = [SendMessageRequest (formattedMessage ''print(1)'' ''python'') (Some ''run-1'')]"
proof -
  have a: "sendPending (fst (handleSendMessage sampleDraft))"
    by (simp add: sampleDraft_sent)
  have b: "snd (handleSendMessage (fst (handleSendMessage sampleDraft))) = []"
    by (simp only: sampleDraft_sent fst_conv) (simp add: handleSendMessage_def)
  have c: "sendRequests (snd (handleCodeSubmit ''print(1)'' ''python'' (fst (handleSendMessage sampleDraft))))
       = [SendMessageRequest (formattedMessage ''print(1)'' ''python'') (Some ''run-1'')]"
    by (simp only: sampleDraft_sent fst_conv)
       (simp add: handleCodeSubmit_def sendMessageMutate_def sendRequests_def
        sampleDraft_fields orNull_run1)
  show ?thesis using a b c by simp
qed

section \<open>Properties of the turn store\<close>

lemma find_append_new:
  "find P xs = None \<Longrightarrow> P x \<Longrightarrow> find P (xs @ [x]) = Some x"
  by (induction xs) (simp_all split: if_splits)

lemma latestForInterview_append: "latestForInterview (store @ [t]) = Some t"
  by (simp add: latestForInterview_def)

lemma listByRun_append:
  "listByRun (store @ [t]) runId =
     listByRun store runId @ (if session_run_id t = Some runId then [t] else [])"
  by (simp add: listByRun_def)

text \<open>
  Claim C6. When a call of end on a run returns, a further call of end on the same run
  returns the same summary and leaves the stored turns as the first call left them,
  whatever summary is generated for it.
\<close>

theorem endRun_idempotent:
  assumes "endRun store interviewId runId summary1 stamp1 = Inr (store1, result1)"
  shows "endRun store1 interviewId runId summary2 stamp2 = Inr (store1, result1)"
proof (cases "terminalTurn store runId")
  case (Some t)
  with assms have "store1 = store" "result1 = feedback t"
    by (simp_all add: endRun_def split: if_splits)
  with Some assms show ?thesis
    by (simp add: endRun_def split: if_splits)
next
  case None
  let ?t = "\<lparr>id_session = fst stamp1, interview_id = interviewId, ai_message = [],
              user_message = SESSION_ENDED, feedback = summary1, created_at = snd stamp1,
              session_run_id = Some runId\<rparr>"
  from None assms have s1: "store1 = store @ [?t]" and r1: "result1 = summary1"
    by (auto simp add: endRun_def append_turn_def split: if_splits)
  have "terminalTurn store1 runId = Some ?t"
    using None by (simp add: terminalTurn_def s1 listByRun_append find_append_new)
  moreover have "listByRun store1 runId \<noteq> []"
    by (simp add: s1 listByRun_append)
  ultimately show ?thesis
    by (simp add: endRun_def r1)
qed

theorem endRun_idempotent_witness:
  "endRun sampleStore ''iv1'' ''run-1'' (Some ''Summary of the run'') (''s3'', ''2024-05-01T10:15:00Z'')
     = Inr (sampleStore @ [sampleEnd\<lparr>ai_message := []\<rparr>], Some ''Summary of the run'')
   \<and> endRun (sampleStore @ [sampleEnd\<lparr>ai_message := []\<rparr>]) ''iv1'' ''run-1'' (Some ''Another summary'')
       (''s4'', ''2024-05-01T10:15:01Z'')
     = Inr (sampleStore @ [sampleEnd\<lparr>ai_message := []\<rparr>], Some ''Summary of the run'')"
proof -
  have h: "endRun sampleStore ''iv1'' ''run-1'' (Some ''Summary of the run'') (''s3'', ''2024-05-01T10:15:00Z'')
     = Inr (sampleStore @ [sampleEnd\<lparr>ai_message := []\<rparr>], Some ''Summary of the run'')"
    by (simp add: endRun_def append_turn_def terminalTurn_def listByRun_def sampleStore_def
        sampleStart_def sampleAnswer_def sampleEnd_def SESSION_ENDED_def)
  show ?thesis
    using h endRun_idempotent [OF h, of "Some ''Another summary''" "(''s4'', ''2024-05-01T10:15:01Z'')"]
    by simp
qed


lemma resumeEffect_initial_start:
  "(case latest of None \<Rightarrow> True | Some t \<Rightarrow> user_message t = SESSION_ENDED) \<Longrightarrow>
   resumeEffect False latest initialPageState
     = (initialPageState\<lparr>startPending := True\<rparr>, [StartInterviewRequest])"
  by (cases latest)
     (simp_all add: resumeEffect_def startInterviewMutate_def initialPageState_def)

lemma resumeEffect_initial_resume:
  "user_message t \<noteq> SESSION_ENDED \<Longrightarrow> runId \<noteq> [] \<Longrightarrow> session_run_id t = Some runId \<Longrightarrow>
   resumeEffect False (Some t) initialPageState
     = (initialPageState\<lparr>sessionRunId := Some runId, started := True\<rparr>, [])"
  by (simp add: resumeEffect_def truthy_def)

lemma sentinels_differ_sym: "INTERVIEW_STARTED \<noteq> SESSION_ENDED"
  by (simp add: SESSION_ENDED_def INTERVIEW_STARTED_def)

lemma autoStartEffect_legacy_initial:
  "snd (autoStartEffect_legacy (Some interviewId) initialPageState) =
     (if interviewId = [] then [] else [StartInterviewRequest])"
  by (simp add: autoStartEffect_legacy_def startInterviewMutate_def initialPageState_def
      truthy_def)

text \<open>
  Claim C3, as stated, fails on the earlier variant of the page, whose effect on mount
  always sends a start request: entering the sample interview a second time, with only
  the opening turn stored, starts a second run with another opening question.
\<close>

theorem legacy_start_twice_counterexample:
  "fst (enterInterview_legacy [] ''iv1'' ''run-1'' (Some ''Tell me about yourself.'')
        (''s1'', ''2024-05-01T10:00:00Z'')) = [sampleStart]
   \<and> sessionRunId (snd (enterInterview_legacy [] ''iv1'' ''run-1''
        (Some ''Tell me about yourself.'') (''s1'', ''2024-05-01T10:00:00Z''))) = Some ''run-1''
   \<and> openingQuestion (snd (enterInterview_legacy [] ''iv1'' ''run-1''
        (Some ''Tell me about yourself.'') (''s1'', ''2024-05-01T10:00:00Z'')))
       = Some ''Tell me about yourself.''
   \<and> sessionRunId (snd (enterInterview_legacy [sampleStart] ''iv1'' ''run-2''
        (Some ''Why this company?'') (''s2'', ''2024-05-01T10:01:00Z''))) = Some ''run-2''
   \<and> openingQuestion (snd (enterInterview_legacy [sampleStart] ''iv1'' ''run-2''
        (Some ''Why this company?'') (''s2'', ''2024-05-01T10:01:00Z'')))
       = Some ''Why this company?''
   \<and> length (fst (enterInterview_legacy [sampleStart] ''iv1'' ''run-2''
        (Some ''Why this company?'') (''s2'', ''2024-05-01T10:01:00Z''))) = 2"
  by (simp add: enterInterview_legacy_def autoStartEffect_legacy_def startInterviewMutate_def
      initialPageState_def truthy_def startRun_def append_turn_def terminalTurn_def
      listByRun_def startInterview_onSuccess_def sampleStart_def INTERVIEW_STARTED_def)

text \<open>
  Claim C3, amended. On an interview with no run to resume, entering starts a run with a non-empty
  fresh identifier and the generated opening question. Entering again, on a freshly
  loaded page and with nothing answered or ended in between, resumes that run: the run
  identifier is the same, the transcript shows the same opening question, and the store
  is unchanged, whatever identifier and question a new run would have got. The earlier
  variant of the page sends a start request on every entry that names an interview.
\<close>

theorem start_twice_same_run:
  assumes startable:
      "(case latestForInterview store of None \<Rightarrow> True
        | Some t \<Rightarrow> user_message t = SESSION_ENDED)"
    and fresh: "listByRun store newRunId = []" and nonempty: "newRunId \<noteq> []"
    and first: "first = enterInterview store interviewId newRunId (Some question) stamp"
    and second: "second = enterInterview (fst first) interviewId newRunId2 generated2 stamp2"
  shows "sessionRunId (snd first) = Some newRunId \<and> sessionRunId (snd second) = Some newRunId
       \<and> fst second = fst first
       \<and> visibleTranscript first = [(Ai, question)]
       \<and> visibleTranscript second = [(Ai, question)]
       \<and> snd (autoStartEffect_legacy (Some interviewId) initialPageState) =
           (if interviewId = [] then [] else [StartInterviewRequest])"
proof -
  let ?t = "\<lparr>id_session = fst stamp, interview_id = interviewId, ai_message = question,
              user_message = INTERVIEW_STARTED, feedback = None, created_at = snd stamp,
              session_run_id = Some newRunId\<rparr>"
  have noterm: "terminalTurn store newRunId = None"
    by (simp add: terminalTurn_def fresh)
  have f: "first = (store @ [?t],
             initialPageState\<lparr>startPending := False, openingQuestion := Some question,
               sessionRunId := Some newRunId, started := True\<rparr>)"
    by (simp add: first enterInterview_def resumeEffect_initial_start [OF startable]
        startRun_def append_turn_def noterm startInterview_onSuccess_def)
  have run: "listByRun (store @ [?t]) newRunId = [?t]"
    by (simp add: listByRun_append fresh)
  have s: "second = (store @ [?t],
             initialPageState\<lparr>sessionRunId := Some newRunId, started := True\<rparr>)"
    using resumeEffect_initial_resume [of ?t newRunId] nonempty sentinels_differ_sym
    by (simp add: second f enterInterview_def latestForInterview_append)
  have v1: "visibleTranscript first = [(Ai, question)]"
    using nonempty
    by (simp add: f visibleTranscript_def loadedSessions_def truthy_def run messages_nonempty
        contribution_def aiEntry_def)
  have v2: "visibleTranscript second = [(Ai, question)]"
    using nonempty
    by (simp add: s visibleTranscript_def loadedSessions_def truthy_def run messages_nonempty
        contribution_def aiEntry_def)
  show ?thesis using v1 v2 by (simp add: f s autoStartEffect_legacy_initial)
qed

theorem start_twice_same_run_witness:
  "latestForInterview [] = None \<and> listByRun [] ''run-1'' = []
   \<and> sessionRunId (snd (enterInterview [] ''iv1'' ''run-1'' (Some ''Tell me about yourself.'')
        (''s1'', ''2024-05-01T10:00:00Z''))) = Some ''run-1''
   \<and> fst (enterInterview [] ''iv1'' ''run-1'' (Some ''Tell me about yourself.'')
        (''s1'', ''2024-05-01T10:00:00Z'')) = [sampleStart]
   \<and> enterInterview [sampleStart] ''iv1'' ''run-2'' (Some ''Why this company?'')
        (''s2'', ''2024-05-01T10:01:00Z'') = ([sampleStart], sampleResumed)
   \<and> visibleTranscript ([sampleStart], sampleResumed) = [(Ai, ''Tell me about yourself.'')]"
proof -
  have h1: "(case latestForInterview [] of None \<Rightarrow> True
        | Some t \<Rightarrow> user_message t = SESSION_ENDED)"
    by (simp add: latestForInterview_def)
  have h2: "listByRun [] ''run-1'' = []" by (simp add: listByRun_def)
  have h3: "''run-1'' \<noteq> []" by simp
  have e1: "fst (enterInterview [] ''iv1'' ''run-1'' (Some ''Tell me about yourself.'')
        (''s1'', ''2024-05-01T10:00:00Z'')) = [sampleStart]"
    by (simp add: enterInterview_def latestForInterview_def resumeEffect_def
        startInterviewMutate_def initialPageState_def startRun_def append_turn_def
        terminalTurn_def listByRun_def startInterview_onSuccess_def sampleStart_def
        INTERVIEW_STARTED_def)
  have e2: "enterInterview [sampleStart] ''iv1'' ''run-2'' (Some ''Why this company?'')
        (''s2'', ''2024-05-01T10:01:00Z'') = ([sampleStart], sampleResumed)"
    by (simp add: enterInterview_def latestForInterview_def resumeEffect_def
        sampleStart_def SESSION_ENDED_def truthy_def sampleResumed_def)
  show ?thesis
    using h2 e1 e2
      start_twice_same_run [OF h1 h2 h3 refl refl, of "''iv1''" "''Tell me about yourself.''"
        "(''s1'', ''2024-05-01T10:00:00Z'')" "''run-2''" "Some ''Why this company?''"
        "(''s2'', ''2024-05-01T10:01:00Z'')"]
    by (simp add: latestForInterview_def)
qed

end
